theory Spec2Isabelle
  imports Main
begin

section \<open>Data model (src/app/models.py)\<close>

text \<open>
  A \<open>datetime\<close> is a point on the UTC time line counted in microseconds, the resolution
  of Python's \<open>datetime\<close>; \<open>timedelta(minutes=m)\<close> is the matching number of
  microseconds. Every call of \<open>datetime.utcnow()\<close> in the source is an input of the
  model: a function that reads the clock takes one argument per reading, and nothing is
  assumed about how the readings relate to each other.
\<close>

type_synonym datetime = int

definition timedelta_minutes :: "int \<Rightarrow> int" where
  "timedelta_minutes m = m * 60000000"

text \<open>
  The columns of \<open>class User\<close>, in the order of their declaration. The primary key
  \<open>id\<close> is called \<open>user_id\<close> here. A nullable \<open>DateTime\<close> column is an option.
  \<open>failed_login_attempts\<close> is declared with \<open>default=0\<close> and every row this
  application inserts leaves it to the default, so it is an integer.
\<close>

record user =
  user_id :: int
  username :: string
  email :: string
  password_hash :: string
  is_active :: bool
  is_admin :: bool
  failed_login_attempts :: int
  last_failed_login :: "datetime option"
  account_locked_until :: "datetime option"
  created_at :: datetime
  updated_at :: "datetime option"
  last_login :: "datetime option"

text \<open>
  The columns of \<open>class ApiKey\<close>; the names carry the prefix \<open>key_\<close> where they
  would clash with a column of \<open>user\<close>. \<open>owner_id\<close> is the foreign key
  \<open>user_id\<close>.
\<close>

record api_key =
  key_id :: int
  key_hash :: string
  key_name :: string
  owner_id :: int
  key_is_active :: bool
  key_last_used :: "datetime option"
  key_created_at :: datetime
  key_expires_at :: "datetime option"

text \<open>
  A parsed JSON request body, as \<open>request.get_json()\<close> returns it (numbers are only
  ever tested for truth by the handlers, so integers stand for them).
\<close>

datatype json = JNull | JBool bool | JNum int | JStr string | JArr "json list"
  | JObj "(string \<times> json) list"

datatype py_error = TypeError | AttributeError | KeyError | IntegrityError

text \<open>
  The library functions the source calls and this repository does not define:
  \<open>bcrypt.check_password_hash\<close> of Flask-Bcrypt (stored hash, password);
  \<open>generate_password_hash\<close> of werkzeug, with the salt it draws as an explicit first
  argument; \<open>check_password_hash\<close> of werkzeug (stored hash, key); and the conversion
  the ORM's \<open>Boolean\<close> column applies to a Python value when it is flushed
  (\<open>None\<close> when the flush rejects the value); and Python's \<open>str()\<close> of a value
  that is not a string, as an f-string formats it.
\<close>

record library =
  bcrypt_check_password_hash :: "string \<Rightarrow> string \<Rightarrow> bool"
  generate_password_hash :: "string \<Rightarrow> string \<Rightarrow> string"
  check_password_hash :: "string \<Rightarrow> string \<Rightarrow> bool"
  boolean_column :: "json \<Rightarrow> bool option"
  py_str :: "json \<Rightarrow> string"

text \<open>
  \<open>db.session.commit()\<close> on a loaded \<open>User\<close>: \<open>row\<close> is the row as it was loaded,
  \<open>self\<close> the object as the request left it. When a column differs the ORM emits an
  UPDATE, and the column \<open>updated_at\<close> is declared with \<open>onupdate=datetime.utcnow\<close>
  (models.py, line 32), so the UPDATE stamps it with a clock reading \<open>now\<close>; when no
  column differs no UPDATE is emitted.
\<close>

definition commit_user :: "datetime \<Rightarrow> user \<Rightarrow> user \<Rightarrow> user" where
  "commit_user now row self = (if self = row then self else self\<lparr>updated_at := Some now\<rparr>)"

text \<open>\<open>User.check_password\<close>.\<close>

definition check_password :: "library \<Rightarrow> user \<Rightarrow> string \<Rightarrow> bool" where
  "check_password lib self password = bcrypt_check_password_hash lib (password_hash self) password"

text \<open>
  \<open>User.is_account_locked\<close> returns its verdict and the object it leaves behind.
  \<open>now\<close> is the clock reading of line 58 (taken only when a lock is set), \<open>t_commit\<close>
  the one of the commit on line 64.
\<close>

definition is_account_locked :: "datetime \<Rightarrow> datetime \<Rightarrow> user \<Rightarrow> bool \<times> user" where
  "is_account_locked now t_commit self =
     (case account_locked_until self of
        None \<Rightarrow> (False, self)
      | Some until \<Rightarrow>
          if now < until then (True, self)
          else (False, commit_user t_commit self
                  (self\<lparr>account_locked_until := None, failed_login_attempts := 0\<rparr>)))"

text \<open>
  \<open>User.record_failed_login\<close>: \<open>now1\<close> is the reading of line 70, \<open>now2\<close> the one
  of line 75, \<open>t_commit\<close> the one of the commit on line 77.
\<close>

definition record_failed_login :: "datetime \<Rightarrow> datetime \<Rightarrow> datetime \<Rightarrow> user \<Rightarrow> user" where
  "record_failed_login now1 now2 t_commit self =
     (let s1 = self\<lparr>failed_login_attempts := failed_login_attempts self + 1\<rparr>;
          s2 = s1\<lparr>last_failed_login := Some now1\<rparr>;
          s3 = (if failed_login_attempts s2 \<ge> 5
                then s2\<lparr>account_locked_until := Some (now2 + timedelta_minutes 30)\<rparr>
                else s2)
      in commit_user t_commit self s3)"

text \<open>\<open>User.reset_failed_logins\<close>: \<open>now\<close> is the reading of line 84.\<close>

definition reset_failed_logins :: "datetime \<Rightarrow> datetime \<Rightarrow> user \<Rightarrow> user" where
  "reset_failed_logins now t_commit self =
     commit_user t_commit self
       (self\<lparr>failed_login_attempts := 0, last_failed_login := None,
             account_locked_until := None, last_login := Some now\<rparr>)"

text \<open>
  \<open>ApiKey.set_key\<close> and \<open>ApiKey.verify_key\<close>. In \<open>verify_key\<close> the clock is read
  (line 133) only for an active key with an expiry.
\<close>

definition set_key :: "library \<Rightarrow> string \<Rightarrow> api_key \<Rightarrow> string \<Rightarrow> api_key" where
  "set_key lib salt self key = self\<lparr>key_hash := generate_password_hash lib salt key\<rparr>"

definition verify_key :: "library \<Rightarrow> datetime \<Rightarrow> api_key \<Rightarrow> string \<Rightarrow> bool" where
  "verify_key lib now self key =
     (if \<not> key_is_active self then False
      else if (case key_expires_at self of None \<Rightarrow> False | Some e \<Rightarrow> now > e) then False
      else check_password_hash lib (key_hash self) key)"

text \<open>\<open>ApiKey.record_usage\<close>; the table \<open>api_keys\<close> has no \<open>onupdate\<close> column.\<close>

definition record_usage :: "datetime \<Rightarrow> api_key \<Rightarrow> api_key" where
  "record_usage now self = self\<lparr>key_last_used := Some now\<rparr>"

section \<open>The database and the request environment\<close>

text \<open>
  The two tables, each as the list of its rows in the order the database returns them.
  \<open>get_user\<close> is \<open>User.query.get(id)\<close>; \<open>persist_user\<close> is the UPDATE of the row
  with the object's primary key; \<open>persist_key\<close> likewise for \<open>api_keys\<close>.
\<close>

record database =
  users :: "user list"
  api_keys :: "api_key list"

definition get_user :: "database \<Rightarrow> int \<Rightarrow> user option" where
  "get_user db uid = find (\<lambda>u. user_id u = uid) (users db)"

definition persist_user :: "database \<Rightarrow> user \<Rightarrow> database" where
  "persist_user db u = db\<lparr>users := map (\<lambda>v. if user_id v = user_id u then u else v) (users db)\<rparr>"

definition persist_key :: "database \<Rightarrow> api_key \<Rightarrow> database" where
  "persist_key db k = db\<lparr>api_keys := map (\<lambda>v. if key_id v = key_id k then k else v) (api_keys db)\<rparr>"

text \<open>
  Python's \<open>str.lower\<close> on ASCII text, \<open>s.startswith(p)\<close>, the substring test
  \<open>p in s\<close>, truth of a JSON value (\<open>not data\<close>), \<open>key in data\<close> and
  \<open>data[key]\<close> for a string key.
\<close>

definition lower_char :: "char \<Rightarrow> char" where
  "lower_char c = (if (65::nat) \<le> of_char c \<and> of_char c \<le> (90::nat)
                   then char_of (of_char c + (32::nat)) else c)"

definition lower :: "string \<Rightarrow> string" where
  "lower s = map lower_char s"

definition startswith :: "string \<Rightarrow> string \<Rightarrow> bool" where
  "startswith s p = (take (length p) s = p)"

fun str_contains :: "string \<Rightarrow> string \<Rightarrow> bool" where
  "str_contains [] p = (p = [])"
| "str_contains (c # cs) p = (startswith (c # cs) p \<or> str_contains cs p)"

definition truthy :: "json \<Rightarrow> bool" where
  "truthy data = (case data of
       JNull \<Rightarrow> False | JBool b \<Rightarrow> b | JNum n \<Rightarrow> n \<noteq> 0 | JStr s \<Rightarrow> s \<noteq> []
     | JArr xs \<Rightarrow> xs \<noteq> [] | JObj kvs \<Rightarrow> kvs \<noteq> [])"

definition py_contains :: "string \<Rightarrow> json \<Rightarrow> py_error + bool" where
  "py_contains key data = (case data of
       JObj kvs \<Rightarrow> Inr (key \<in> set (map fst kvs))
     | JStr s \<Rightarrow> Inr (str_contains s key)
     | JArr xs \<Rightarrow> Inr (JStr key \<in> set xs)
     | _ \<Rightarrow> Inl TypeError)"

definition py_getitem :: "json \<Rightarrow> string \<Rightarrow> py_error + json" where
  "py_getitem data key = (case data of
       JObj kvs \<Rightarrow> (case map_of kvs key of None \<Rightarrow> Inl KeyError | Some v \<Rightarrow> Inr v)
     | _ \<Rightarrow> Inl TypeError)"

text \<open>
  A response: \<open>Json\<close> is \<open>jsonify(body), status\<close> with the string-valued entries of
  the body (of a nested \<open>user\<close> object, \<open>get_current_user\<close> keeps the username and
  the email, the other handlers nothing); \<open>Redirect\<close> names its target;
  \<open>Render\<close> is a rendered template with the messages flashed for it, each with its
  category. \<open>internal_error\<close> is the blueprint's handler for an uncaught exception; it
  rolls the session back, so the database is as the last commit left it.
\<close>

datatype response = Json nat "(string \<times> string) list" | Redirect string
  | Render string "(string \<times> string) list"

definition internal_error :: "response" where
  "internal_error = Json 500 [(''error'', ''Internal server error''),
                              (''message'', ''An unexpected error occurred'')]"

text \<open>The HTTP status of a response (a redirect is a 302, a rendered page a 200).\<close>

fun status :: "response \<Rightarrow> nat" where
  "status (Json code body) = code"
| "status (Redirect target) = 302"
| "status (Render template flashes) = 200"

section \<open>Session login (src/app/routes/auth.py)\<close>

text \<open>
  The submitted \<open>LoginForm\<close>. \<open>validate_on_submit\<close> is the verdict of the form
  library (a POST whose CSRF token and required fields pass).
\<close>

record login_form =
  validate_on_submit :: bool
  form_username :: string
  form_password :: string
  remember_me :: bool

text \<open>
  \<open>login\<close>, once the rate limiter has admitted the request, for the session's
  \<open>current_user\<close> (\<open>None\<close> when anonymous) and the \<open>next\<close> query argument. It returns the response, the user id \<open>login_user\<close>
  binds the session to (if any), and the database. The clock readings of the handler are
  \<open>clk 0\<close>, \<open>clk 1\<close> for \<open>is_account_locked\<close>, \<open>clk 2\<close>, \<open>clk 3\<close> for
  \<open>reset_failed_logins\<close> and \<open>clk 4\<close>, \<open>clk 5\<close>, \<open>clk 6\<close> for
  \<open>record_failed_login\<close>.
\<close>

definition login ::
  "library \<Rightarrow> (nat \<Rightarrow> datetime) \<Rightarrow> user option \<Rightarrow> login_form \<Rightarrow> string option \<Rightarrow> database
     \<Rightarrow> (response \<times> int option) \<times> database" where
  "login lib clk current_user form next_page db =
     (case current_user of
        Some _ \<Rightarrow> ((Redirect ''main.dashboard'', None), db)
      | None \<Rightarrow>
          if \<not> validate_on_submit form then ((Render ''auth/login.html'' [], None), db)
          else
            (case find (\<lambda>u. username u = form_username form
                              \<or> email u = lower (form_username form)) (users db) of
               None \<Rightarrow>
                 ((Render ''auth/login.html''
                     [(''Invalid username/email or password.'', ''danger'')], None), db)
             | Some user \<Rightarrow>
                 \<comment> \<open>Check if user exists and account is not locked\<close>
                 let (locked, user1) = is_account_locked (clk 0) (clk 1) user;
                     db1 = persist_user db user1
                 in if locked then
                      ((Render ''auth/login.html''
                          [(''Your account is temporarily locked due to multiple failed login attempts. Please try again later.'',
                            ''warning'')], None), db1)
                    \<comment> \<open>Verify password\<close>
                    else if check_password lib user1 (form_password form) then
                      \<comment> \<open>Check if account is active\<close>
                      if \<not> is_active user1 then
                        ((Render ''auth/login.html''
                            [(''Your account has been deactivated. Please contact support.'',
                              ''danger'')], None), db1)
                      else
                        \<comment> \<open>Reset failed login attempts and log in\<close>
                        let user2 = reset_failed_logins (clk 2) (clk 3) user1;
                            db2 = persist_user db1 user2
                        in ((Redirect (case next_page of
                                         None \<Rightarrow> ''main.dashboard''
                                       | Some n \<Rightarrow> if n \<noteq> [] \<and> startswith n ''/'' then n
                                                   else ''main.dashboard''),
                             Some (user_id user2)), db2)
                    else
                      \<comment> \<open>Record failed login attempt if user exists\<close>
                      let user2 = record_failed_login (clk 4) (clk 5) (clk 6) user1
                      in ((Render ''auth/login.html''
                             [(''Invalid username/email or password.'', ''danger'')], None),
                          persist_user db1 user2)))"

section \<open>The JSON API (src/app/routes/api.py)\<close>

text \<open>
  The handlers are modelled from the point where the rate limiter has admitted the request
  and, for a handler that reads a body, \<open>request.get_json()\<close> has returned it.
\<close>

text \<open>
  The \<open>for\<close> loop of \<open>api_key_required\<close> (lines 30 to 35): the first key that
  verifies, if any. \<open>clk 0\<close> is the clock reading of the first call of
  \<open>verify_key\<close>, \<open>clk 1\<close> of the second, and so on.
\<close>

fun scan_keys :: "library \<Rightarrow> (nat \<Rightarrow> datetime) \<Rightarrow> api_key list \<Rightarrow> string \<Rightarrow> api_key option" where
  "scan_keys lib clk [] api_key = None"
| "scan_keys lib clk (key_obj # rest) api_key =
     (if verify_key lib (clk 0) key_obj api_key then Some key_obj
      else scan_keys lib (\<lambda>n. clk (Suc n)) rest api_key)"

text \<open>
  The decorator \<open>api_key_required\<close>, up to the call of the view it guards: \<open>header\<close>
  is \<open>request.headers.get('X-API-Key')\<close>, \<open>t_usage\<close> the clock reading of
  \<open>record_usage\<close>. The result is the response that refuses the request, or the user
  attached to it as \<open>request.api_user\<close>. \<open>key_obj.user\<close> loads the row the foreign
  key names; were there none, \<open>user.is_active\<close> would raise.
\<close>

definition api_key_required ::
  "library \<Rightarrow> (nat \<Rightarrow> datetime) \<Rightarrow> datetime \<Rightarrow> string option \<Rightarrow> database
     \<Rightarrow> (response + user) \<times> database" where
  "api_key_required lib clk t_usage header db =
     (case header of
        None \<Rightarrow> (Inl (Json 401 [(''error'', ''API key required''),
                     (''message'', ''Please provide an API key in the X-API-Key header'')]), db)
      | Some api_key \<Rightarrow>
          if api_key = [] then
            (Inl (Json 401 [(''error'', ''API key required''),
                 (''message'', ''Please provide an API key in the X-API-Key header'')]), db)
          else
            (case scan_keys lib clk (filter key_is_active (api_keys db)) api_key of
               None \<Rightarrow> (Inl (Json 401 [(''error'', ''Invalid API key''),
                            (''message'', ''The provided API key is invalid or has expired'')]), db)
             | Some key_obj \<Rightarrow>
                 let db1 = persist_key db (record_usage t_usage key_obj)
                 in (case get_user db1 (owner_id key_obj) of
                       None \<Rightarrow> (Inl internal_error, db1)
                     | Some user \<Rightarrow>
                         if \<not> is_active user then
                           (Inl (Json 403 [(''error'', ''Account deactivated''),
                                (''message'', ''Your account has been deactivated'')]), db1)
                         else (Inr user, db1))))"

text \<open>\<open>GET /api/auth/me\<close>: \<open>get_current_user\<close> behind \<open>api_key_required\<close>.\<close>

definition get_current_user ::
  "library \<Rightarrow> (nat \<Rightarrow> datetime) \<Rightarrow> datetime \<Rightarrow> string option \<Rightarrow> database \<Rightarrow> response \<times> database" where
  "get_current_user lib clk t_usage header db =
     (case api_key_required lib clk t_usage header db of
        (Inl refusal, db1) \<Rightarrow> (refusal, db1)
      | (Inr user, db1) \<Rightarrow> (Json 200 [(''username'', username user), (''email'', email user)], db1))"

text \<open>
  The decorators \<open>login_required\<close> (Flask-Login, which redirects an anonymous request
  to the login view) and \<open>admin_required\<close>, as wrappers of a view that takes the
  current user and the database.
\<close>

definition login_required ::
  "(user option \<Rightarrow> database \<Rightarrow> response \<times> database) \<Rightarrow> user option \<Rightarrow> database \<Rightarrow> response \<times> database" where
  "login_required f current_user db =
     (case current_user of None \<Rightarrow> (Redirect ''auth.login'', db) | Some _ \<Rightarrow> f current_user db)"

definition admin_required ::
  "(user option \<Rightarrow> database \<Rightarrow> response \<times> database) \<Rightarrow> user option \<Rightarrow> database \<Rightarrow> response \<times> database" where
  "admin_required f current_user db =
     (case current_user of
        None \<Rightarrow> (Json 401 [(''error'', ''Authentication required''),
                 (''message'', ''You must be logged in to access this resource'')], db)
      | Some u \<Rightarrow>
          if \<not> is_admin u then
            (Json 403 [(''error'', ''Admin access required''),
               (''message'', ''You do not have permission to access this resource'')], db)
          else f current_user db)"

text \<open>
  \<open>POST /api/auth/login\<close>. \<open>data\<close> is the parsed body; \<open>token\<close> is the value of
  \<open>secrets.token_urlsafe(32)\<close>, \<open>salt\<close> the salt of the hash, \<open>new_id\<close> the primary
  key the database gives the inserted row. The clock readings are \<open>clk 0\<close>, \<open>clk 1\<close>
  for \<open>is_account_locked\<close>, \<open>clk 2\<close>, \<open>clk 3\<close> for \<open>reset_failed_logins\<close> and
  \<open>clk 4\<close> for the default of \<open>created_at\<close>. The column \<open>key_hash\<close> is unique:
  the commit of a duplicate raises. \<open>device_of\<close> is the text
  \<open>data.get('device', 'Unknown')\<close> contributes to the name of the key.
\<close>

definition device_of :: "library \<Rightarrow> json \<Rightarrow> string" where
  "device_of lib data = (case py_getitem data ''device'' of
       Inl _ \<Rightarrow> ''Unknown'' | Inr (JStr s) \<Rightarrow> s | Inr v \<Rightarrow> py_str lib v)"

definition api_login ::
  "library \<Rightarrow> (nat \<Rightarrow> datetime) \<Rightarrow> string \<Rightarrow> string \<Rightarrow> int \<Rightarrow> json \<Rightarrow> database
     \<Rightarrow> response \<times> database" where
  "api_login lib clk token salt new_id data db =
     (let invalid_request = (Json 400 [(''error'', ''Invalid request''),
                               (''message'', ''Username and password are required'')], db);
          authentication_failed = (Json 401 [(''error'', ''Authentication failed''),
                                     (''message'', ''Invalid username or password'')], db)
      in
      if \<not> truthy data then invalid_request
      else case py_contains ''username'' data of
        Inl _ \<Rightarrow> (internal_error, db)
      | Inr has_username \<Rightarrow>
      if \<not> has_username then invalid_request
      else case py_contains ''password'' data of
        Inl _ \<Rightarrow> (internal_error, db)
      | Inr has_password \<Rightarrow>
      if \<not> has_password then invalid_request
      else case py_getitem data ''username'' of
        Inl _ \<Rightarrow> (internal_error, db)
      | Inr (JStr name) \<Rightarrow>
          \<comment> \<open>Find user\<close>
          (case find (\<lambda>u. username u = name \<or> email u = lower name) (users db) of
             \<comment> \<open>Verify credentials\<close>
             None \<Rightarrow> authentication_failed
           | Some user \<Rightarrow>
               (case py_getitem data ''password'' of
                  Inl _ \<Rightarrow> (internal_error, db)
                | Inr (JStr password) \<Rightarrow>
                    if \<not> check_password lib user password then authentication_failed
                    else
                      \<comment> \<open>Check account status\<close>
                      let (locked, user1) = is_account_locked (clk 0) (clk 1) user;
                          db1 = persist_user db user1
                      in if locked then
                           (Json 403 [(''error'', ''Account locked''),
                              (''message'', ''Your account is temporarily locked'')], db1)
                         else if \<not> is_active user1 then
                           (Json 403 [(''error'', ''Account deactivated''),
                              (''message'', ''Your account has been deactivated'')], db1)
                         else
                           \<comment> \<open>Generate API key\<close>
                           let api_key_obj = set_key lib salt
                                 \<lparr>key_id = new_id, key_hash = [],
                                  key_name = ''API Key - '' @ device_of lib data,
                                  owner_id = user_id user1, key_is_active = True,
                                  key_last_used = None, key_created_at = clk 4,
                                  key_expires_at = None\<rparr> token;
                               user2 = reset_failed_logins (clk 2) (clk 3) user1
                           in if key_hash api_key_obj \<in> set (map key_hash (api_keys db1))
                              then (internal_error, db1)
                              else
                                (Json 200 [(''message'', ''Authentication successful''),
                                   (''api_key'', token)],
                                 (persist_user db1 user2)
                                   \<lparr>api_keys := api_keys db1 @ [api_key_obj]\<rparr>)
                | Inr _ \<Rightarrow> (internal_error, db))
           )
      | Inr _ \<Rightarrow> (internal_error, db))"

text \<open>\<open>DELETE /api/keys/<key_id>\<close>.\<close>

definition revoke_api_key_view :: "int \<Rightarrow> user option \<Rightarrow> database \<Rightarrow> response \<times> database" where
  "revoke_api_key_view kid current_user db =
     (case current_user of
        None \<Rightarrow> (internal_error, db)
      | Some cu \<Rightarrow>
          (case find (\<lambda>k. key_id k = kid \<and> owner_id k = user_id cu) (api_keys db) of
             None \<Rightarrow> (Json 404 [(''error'', ''Not found''),
                      (''message'', ''API key not found'')], db)
           | Some api_key \<Rightarrow>
               (Json 200 [(''message'', ''API key revoked successfully'')],
                db\<lparr>api_keys := filter (\<lambda>k. key_id k \<noteq> key_id api_key) (api_keys db)\<rparr>)))"

definition revoke_api_key :: "int \<Rightarrow> user option \<Rightarrow> database \<Rightarrow> response \<times> database" where
  "revoke_api_key kid = login_required (revoke_api_key_view kid)"

text \<open>
  \<open>DELETE /api/users/<user_id>\<close>. Deleting a user deletes the keys it owns (the
  relationship \<open>api_keys\<close> cascades).
\<close>

definition delete_user_view :: "int \<Rightarrow> user option \<Rightarrow> database \<Rightarrow> response \<times> database" where
  "delete_user_view uid current_user db =
     (case current_user of
        None \<Rightarrow> (internal_error, db)
      | Some cu \<Rightarrow>
          \<comment> \<open>Prevent self-deletion\<close>
          if uid = user_id cu then
            (Json 400 [(''error'', ''Invalid operation''),
               (''message'', ''You cannot delete your own account'')], db)
          else
            (case get_user db uid of
               None \<Rightarrow> (Json 404 [(''error'', ''Not found''),
                        (''message'', ''User not found'')], db)
             | Some user \<Rightarrow>
                 (Json 200 [(''message'', ''User deleted successfully'')],
                  db\<lparr>users := filter (\<lambda>u. user_id u \<noteq> user_id user) (users db),
                     api_keys := filter (\<lambda>k. owner_id k \<noteq> user_id user) (api_keys db)\<rparr>)))"

definition delete_user :: "int \<Rightarrow> user option \<Rightarrow> database \<Rightarrow> response \<times> database" where
  "delete_user uid = login_required (admin_required (delete_user_view uid))"

text \<open>
  \<open>PUT /api/users/<user_id>\<close>. \<open>lookup_if_present key data\<close> is the pattern
  \<open>if key in data: ... data[key]\<close>. The assignments of lines 303 to 308 are followed by
  the commit of line 310, where the \<open>Boolean\<close> columns convert their values and the
  unique index on \<open>email\<close> refuses an address another row holds; \<open>t_commit\<close> is the
  clock reading of that commit. An exception leaves the database as it was.
\<close>

definition lookup_if_present :: "string \<Rightarrow> json \<Rightarrow> py_error + json option" where
  "lookup_if_present key data =
     (case py_contains key data of
        Inl e \<Rightarrow> Inl e
      | Inr present \<Rightarrow>
          if present then (case py_getitem data key of Inl e \<Rightarrow> Inl e | Inr v \<Rightarrow> Inr (Some v))
          else Inr None)"

definition update_user_view ::
  "library \<Rightarrow> datetime \<Rightarrow> int \<Rightarrow> json \<Rightarrow> user option \<Rightarrow> database \<Rightarrow> response \<times> database" where
  "update_user_view lib t_commit uid data current_user db =
     (case get_user db uid of
        None \<Rightarrow> (Json 404 [(''error'', ''Not found''), (''message'', ''User not found'')], db)
      | Some user \<Rightarrow>
          \<comment> \<open>Update allowed fields\<close>
          (case lookup_if_present ''is_active'' data of
             Inl _ \<Rightarrow> (internal_error, db)
           | Inr new_is_active \<Rightarrow>
          (case lookup_if_present ''is_admin'' data of
             Inl _ \<Rightarrow> (internal_error, db)
           | Inr new_is_admin \<Rightarrow>
          (case lookup_if_present ''email'' data of
             Inl _ \<Rightarrow> (internal_error, db)
           | Inr new_email \<Rightarrow>
          (case (case new_email of
                   None \<Rightarrow> Inr (email user)
                 | Some (JStr s) \<Rightarrow> Inr (lower s)
                 | Some _ \<Rightarrow> Inl AttributeError) of
             Inl _ \<Rightarrow> (internal_error, db)
           | Inr email' \<Rightarrow>
          (case (case new_is_active of
                   None \<Rightarrow> Some (is_active user)
                 | Some v \<Rightarrow> boolean_column lib v) of
             None \<Rightarrow> (internal_error, db)
           | Some is_active' \<Rightarrow>
          (case (case new_is_admin of
                   None \<Rightarrow> Some (is_admin user)
                 | Some v \<Rightarrow> boolean_column lib v) of
             None \<Rightarrow> (internal_error, db)
           | Some is_admin' \<Rightarrow>
               if email' \<noteq> email user
                  \<and> (\<exists>v \<in> set (users db). user_id v \<noteq> user_id user \<and> email v = email')
               then (internal_error, db)
               else
                 (Json 200 [(''message'', ''User updated successfully'')],
                  persist_user db
                    (commit_user t_commit user
                       (user\<lparr>is_active := is_active', is_admin := is_admin',
                             email := email'\<rparr>))))))))))"

definition update_user ::
  "library \<Rightarrow> datetime \<Rightarrow> int \<Rightarrow> json \<Rightarrow> user option \<Rightarrow> database \<Rightarrow> response \<times> database" where
  "update_user lib t_commit uid data =
     login_required (admin_required (update_user_view lib t_commit uid data))"

section \<open>Example data\<close>

text \<open>
  A library instance for the closed examples below: its hashes are readable (a bcrypt
  hash is the password behind a prefix, a key hash the key reversed), which is all the
  examples need. \<open>clock_at t\<close> is a clock that reads \<open>t\<close> at every call.
\<close>

definition example_library :: library where
  "example_library =
     \<lparr>bcrypt_check_password_hash = (\<lambda>h p. h = ''bcrypt:'' @ p),
      generate_password_hash = (\<lambda>salt key. rev key),
      check_password_hash = (\<lambda>h key. h = rev key),
      boolean_column = (\<lambda>v. case v of JBool b \<Rightarrow> Some b | _ \<Rightarrow> None),
      py_str = (\<lambda>v. ''None'')\<rparr>"

definition clock_at :: "datetime \<Rightarrow> nat \<Rightarrow> datetime" where
  "clock_at t n = t"

text \<open>A freshly registered user, and an administrator.\<close>

definition alice :: user where
  "alice = \<lparr>user_id = 2, username = ''alice'', email = ''alice@example.com'',
            password_hash = ''bcrypt:Str0ng!Pass'', is_active = True, is_admin = False,
            failed_login_attempts = 0, last_failed_login = None,
            account_locked_until = None, created_at = 1000, updated_at = Some 1000,
            last_login = None\<rparr>"

definition admin :: user where
  "admin = \<lparr>user_id = 1, username = ''admin'', email = ''admin@example.com'',
            password_hash = ''bcrypt:changeme123'', is_active = True, is_admin = True,
            failed_login_attempts = 0, last_failed_login = None,
            account_locked_until = None, created_at = 0, updated_at = Some 0,
            last_login = None\<rparr>"

text \<open>An active key of \<open>alice\<close> whose expiry has passed; its raw value is \<open>secret-key\<close>.\<close>

definition expired_key :: api_key where
  "expired_key = \<lparr>key_id = 7, key_hash = ''yek-terces'', key_name = ''API Key - laptop'',
                  owner_id = 2, key_is_active = True, key_last_used = None,
                  key_created_at = 1000, key_expires_at = Some 2000\<rparr>"

text \<open>
  An inactive user, a key of \<open>alice\<close> (raw value \<open>alice-key\<close>), a key of the
  inactive user (raw value \<open>bob-key\<close>), and a database holding them.
\<close>

definition bob :: user where
  "bob = \<lparr>user_id = 3, username = ''bob'', email = ''bob@example.com'',
          password_hash = ''bcrypt:B0b!Passw'', is_active = False, is_admin = False,
          failed_login_attempts = 0, last_failed_login = None,
          account_locked_until = None, created_at = 1500, updated_at = Some 1500,
          last_login = None\<rparr>"

definition alice_key :: api_key where
  "alice_key = \<lparr>key_id = 8, key_hash = ''yek-ecila'', key_name = ''API Key - Unknown'',
                owner_id = 2, key_is_active = True, key_last_used = None,
                key_created_at = 3000, key_expires_at = None\<rparr>"

definition bob_key :: api_key where
  "bob_key = \<lparr>key_id = 9, key_hash = ''yek-bob'', key_name = ''API Key - Unknown'',
              owner_id = 3, key_is_active = True, key_last_used = None,
              key_created_at = 3000, key_expires_at = None\<rparr>"

definition example_db :: database where
  "example_db = \<lparr>users = [admin, alice, bob], api_keys = [expired_key, alice_key, bob_key]\<rparr>"

text \<open>
  \<open>alice\<close> after five failures recorded at time 0, a database holding her in that
  state, and a login form with a wrong password.
\<close>

definition alice_locked :: user where
  "alice_locked =
     record_failed_login 0 0 0 (record_failed_login 0 0 0 (record_failed_login 0 0 0
       (record_failed_login 0 0 0 (record_failed_login 0 0 0 alice))))"

definition locked_db :: database where
  "locked_db = \<lparr>users = [admin, alice_locked], api_keys = []\<rparr>"

definition wrong_password_form :: login_form where
  "wrong_password_form = \<lparr>validate_on_submit = True, form_username = ''alice'',
                           form_password = ''wrong'', remember_me = False\<rparr>"


section \<open>Auxiliary facts\<close>

lemma commit_user_fields:
  "user_id (commit_user t row self) = user_id self"
  "username (commit_user t row self) = username self"
  "email (commit_user t row self) = email self"
  "password_hash (commit_user t row self) = password_hash self"
  "is_active (commit_user t row self) = is_active self"
  "is_admin (commit_user t row self) = is_admin self"
  "failed_login_attempts (commit_user t row self) = failed_login_attempts self"
  "last_failed_login (commit_user t row self) = last_failed_login self"
  "account_locked_until (commit_user t row self) = account_locked_until self"
  "created_at (commit_user t row self) = created_at self"
  "last_login (commit_user t row self) = last_login self"
  by (simp_all add: commit_user_def)

lemma record_failed_login_attempts:
  "failed_login_attempts (record_failed_login now1 now2 t u) = failed_login_attempts u + 1"
  by (simp add: record_failed_login_def Let_def commit_user_fields)

lemma record_failed_login_last:
  "last_failed_login (record_failed_login now1 now2 t u) = Some now1"
  by (simp add: record_failed_login_def Let_def commit_user_fields)

lemma record_failed_login_lock:
  "account_locked_until (record_failed_login now1 now2 t u) =
     (if failed_login_attempts u + 1 \<ge> 5 then Some (now2 + timedelta_minutes 30)
      else account_locked_until u)"
  by (simp add: record_failed_login_def Let_def commit_user_fields)

lemma is_account_locked_locked:
  "account_locked_until u = Some until \<Longrightarrow> now < until \<Longrightarrow> is_account_locked now t u = (True, u)"
  by (simp add: is_account_locked_def)

lemma is_account_locked_expired:
  "account_locked_until u = Some until \<Longrightarrow> until \<le> now \<Longrightarrow>
   is_account_locked now t u =
     (False, commit_user t u (u\<lparr>account_locked_until := None, failed_login_attempts := 0\<rparr>))"
  by (simp add: is_account_locked_def)

lemma is_account_locked_unset:
  "account_locked_until u = None \<Longrightarrow> is_account_locked now t u = (False, u)"
  by (simp add: is_account_locked_def)

lemma scan_keys_none:
  "(\<forall>k \<in> set ks. \<forall>n. \<not> verify_key lib (clk n) k raw) \<Longrightarrow> scan_keys lib clk ks raw = None"
proof (induction ks arbitrary: clk)
  case Nil
  then show ?case by simp
next
  case (Cons k ks)
  have "\<forall>k \<in> set ks. \<forall>n. \<not> verify_key lib (clk (Suc n)) k raw"
    using Cons.prems by simp
  then have "scan_keys lib (\<lambda>n. clk (Suc n)) ks raw = None"
    by (rule Cons.IH)
  moreover have "\<not> verify_key lib (clk 0) k raw" using Cons.prems by simp
  ultimately show ?case by simp
qed


lemma scan_keys_Some:
  "scan_keys lib clk ks raw = Some k \<Longrightarrow> k \<in> set ks \<and> (\<exists>n. verify_key lib (clk n) k raw)"
proof (induction ks arbitrary: clk)
  case Nil
  then show ?case by simp
next
  case (Cons a ks)
  show ?case
  proof (cases "verify_key lib (clk 0) a raw")
    case True
    with Cons.prems have "k = a" by simp
    with True show ?thesis by auto
  next
    case False
    with Cons.prems have "scan_keys lib (\<lambda>n. clk (Suc n)) ks raw = Some k" by simp
    from Cons.IH [OF this] show ?thesis by auto
  qed
qed

lemma get_user_persist_key: "get_user (persist_key db k) uid = get_user db uid"
  by (simp add: get_user_def persist_key_def)

lemma find_id_map_same:
  "user_id u' = uid \<Longrightarrow> find (\<lambda>v. user_id v = uid) us = Some u \<Longrightarrow>
   find (\<lambda>v. user_id v = uid) (map (\<lambda>v. if user_id v = user_id u' then u' else v) us) = Some u'"
  by (induction us) (auto split: if_splits)

lemma find_id_map_other:
  "user_id u' \<noteq> uid \<Longrightarrow>
   find (\<lambda>v. user_id v = uid) (map (\<lambda>v. if user_id v = user_id u' then u' else v) us)
     = find (\<lambda>v. user_id v = uid) us"
  by (induction us) auto

lemma get_user_persist_same:
  "get_user db (user_id u') = Some u \<Longrightarrow> get_user (persist_user db u') (user_id u') = Some u'"
  by (simp add: get_user_def persist_user_def find_id_map_same)

lemma get_user_persist_other:
  "user_id u' \<noteq> uid \<Longrightarrow> get_user (persist_user db u') uid = get_user db uid"
  by (simp add: get_user_def persist_user_def find_id_map_other)

lemma persist_user_twice:
  "user_id u2 = user_id u1 \<Longrightarrow> persist_user (persist_user db u1) u2 = persist_user db u2"
  by (simp add: persist_user_def comp_def cong: if_cong)

lemma persist_user_same:
  "distinct (map user_id (users db)) \<Longrightarrow> u \<in> set (users db) \<Longrightarrow> persist_user db u = db"
proof -
  assume d: "distinct (map user_id (users db))" and m: "u \<in> set (users db)"
  have "map (\<lambda>v. if user_id v = user_id u then u else v) (users db) = users db"
  proof (rule map_idI)
    fix v assume "v \<in> set (users db)"
    with d m have "user_id v = user_id u \<Longrightarrow> v = u"
      by (meson distinct_map inj_onD)
    then show "(if user_id v = user_id u then u else v) = v" by auto
  qed
  then show ?thesis by (simp add: persist_user_def)
qed

lemma find_user_mem: "find P us = Some u \<Longrightarrow> u \<in> set us \<and> P u"
  by (induction us) (auto split: if_splits)

lemma find_exists: "\<exists>x \<in> set xs. P x \<Longrightarrow> \<exists>y. find P xs = Some y \<and> P y"
  by (induction xs) auto

lemma find_none: "\<not> (\<exists>x \<in> set xs. P x) \<Longrightarrow> find P xs = None"
  by (induction xs) auto


lemmas ex_defs = example_db_def admin_def alice_def bob_def expired_key_def alice_key_def bob_key_def
  example_library_def clock_at_def

lemma alice_locked_eq:
  "alice_locked = alice\<lparr>failed_login_attempts := 5, last_failed_login := Some 0,
                         account_locked_until := Some 1800000000, updated_at := Some 0\<rparr>"
  by (simp add: alice_locked_def alice_def record_failed_login_def commit_user_def Let_def
        timedelta_minutes_def)

lemma lower_alice: "lower ''alice'' = ''alice''"
  by (simp add: lower_def lower_char_def)

lemma login_locked:
  assumes "validate_on_submit form"
    and "find (\<lambda>u. username u = form_username form \<or> email u = lower (form_username form))
           (users db) = Some v"
    and "account_locked_until v = Some until" and "clk 0 < until"
    and "distinct (map user_id (users db))"
  shows "login lib clk None form next_page db =
       ((Render ''auth/login.html''
          [(''Your account is temporarily locked due to multiple failed login attempts. Please try again later.'',
            ''warning'')], None), db)"
proof -
  have l: "is_account_locked (clk 0) (clk 1) v = (True, v)"
    using assms(3,4) by (rule is_account_locked_locked)
  have "v \<in> set (users db)" using assms(2) by (auto dest: find_user_mem)
  with assms(5) have "persist_user db v = db" by (rule persist_user_same)
  with l assms(1,2) show ?thesis by (simp add: login_def)
qed

lemma login_wrong_password:
  assumes "validate_on_submit form"
    and "find (\<lambda>u. username u = form_username form \<or> email u = lower (form_username form))
           (users db) = Some u"
    and "is_account_locked (clk 0) (clk 1) u = (False, u1)"
    and "\<not> check_password lib u1 (form_password form)"
  shows "login lib clk None form next_page db =
       ((Render ''auth/login.html'' [(''Invalid username/email or password.'', ''danger'')], None),
        persist_user (persist_user db u1) (record_failed_login (clk 4) (clk 5) (clk 6) u1))"
  using assms by (simp add: login_def)

lemma record_failed_login_id: "user_id (record_failed_login a b c u) = user_id u"
  by (simp add: record_failed_login_def Let_def commit_user_fields)

lemma api_login_wrong_password:
  assumes "map_of kvs ''username'' = Some (JStr name)"
    and "map_of kvs ''password'' = Some (JStr password)"
    and "find (\<lambda>u. username u = name \<or> email u = lower name) (users db) = Some u"
    and "\<not> check_password lib u password"
  shows "api_login lib clk token salt new_id (JObj kvs) db =
       (Json 401 [(''error'', ''Authentication failed''),
          (''message'', ''Invalid username or password'')], db)"
proof -
  have ne: "kvs \<noteq> []" using assms(1) by auto
  have a: "''username'' \<in> fst ` set kvs" using assms(1) by (metis map_of_eq_None_iff option.distinct(1))
  have b: "''password'' \<in> fst ` set kvs" using assms(2) by (metis map_of_eq_None_iff option.distinct(1))
  show ?thesis using ne a b assms
    by (simp add: api_login_def truthy_def py_contains_def py_getitem_def)
qed

lemma lookup_if_present_Some:
  "lookup_if_present key data = Inr (Some v) \<Longrightarrow> py_getitem data key = Inr v"
  by (simp add: lookup_if_present_def split: sum.splits if_splits)

lemma update_user_view_cases:
  assumes "get_user db uid = Some u"
  shows "update_user_view lib t uid data cu db = (internal_error, db)
       \<or> (\<exists>a b e. update_user_view lib t uid data cu db =
             (Json 200 [(''message'', ''User updated successfully'')],
              persist_user db (commit_user t u (u\<lparr>is_active := a, is_admin := b, email := e\<rparr>)))
            \<and> (e = email u \<or> (\<exists>s. py_getitem data ''email'' = Inr (JStr s) \<and> e = lower s)))"
proof (cases "lookup_if_present ''is_active'' data")
  case Inl
  with assms show ?thesis by (simp add: update_user_view_def)
next
  case a: (Inr new_is_active)
  show ?thesis
  proof (cases "lookup_if_present ''is_admin'' data")
    case Inl
    with assms a show ?thesis by (simp add: update_user_view_def)
  next
    case b: (Inr new_is_admin)
    show ?thesis
    proof (cases "lookup_if_present ''email'' data")
      case Inl
      with assms a b show ?thesis by (simp add: update_user_view_def)
    next
      case e: (Inr new_email)
      define em where "em = (case new_email of None \<Rightarrow> Inr (email u)
                 | Some (JStr s) \<Rightarrow> Inr (lower s) | Some _ \<Rightarrow> Inl AttributeError)"
      define ac where "ac = (case new_is_active of None \<Rightarrow> Some (is_active u)
                 | Some v \<Rightarrow> boolean_column lib v)"
      define ad where "ad = (case new_is_admin of None \<Rightarrow> Some (is_admin u)
                 | Some v \<Rightarrow> boolean_column lib v)"
      have v: "update_user_view lib t uid data cu db =
        (case em of Inl _ \<Rightarrow> (internal_error, db)
         | Inr email' \<Rightarrow>
          (case ac of None \<Rightarrow> (internal_error, db)
           | Some is_active' \<Rightarrow>
            (case ad of None \<Rightarrow> (internal_error, db)
             | Some is_admin' \<Rightarrow>
               if email' \<noteq> email u
                  \<and> (\<exists>v \<in> set (users db). user_id v \<noteq> user_id u \<and> email v = email')
               then (internal_error, db)
               else (Json 200 [(''message'', ''User updated successfully'')],
                  persist_user db
                    (commit_user t u
                       (u\<lparr>is_active := is_active', is_admin := is_admin',
                             email := email'\<rparr>))))))"
        using assms a b e unfolding em_def ac_def ad_def by (simp add: update_user_view_def)
      show ?thesis
      proof (cases em)
        case Inl
        with v show ?thesis by simp
      next
        case (Inr email')
        have em': "email' = email u \<or> (\<exists>s. py_getitem data ''email'' = Inr (JStr s) \<and> email' = lower s)"
        proof (cases new_email)
          case None
          with Inr show ?thesis by (simp add: em_def)
        next
          case (Some j)
          with Inr obtain s where "j = JStr s" "email' = lower s"
            by (cases j) (simp_all add: em_def)
          with Some e lookup_if_present_Some [of "''email''" data j] show ?thesis by simp
        qed
        show ?thesis
        proof (cases ac)
          case None
          with v Inr show ?thesis by simp
        next
          case sa: (Some is_active')
          show ?thesis
          proof (cases ad)
            case None
            with v Inr sa show ?thesis by simp
          next
            case sb: (Some is_admin')
            show ?thesis
            proof (cases "email' \<noteq> email u
                  \<and> (\<exists>v \<in> set (users db). user_id v \<noteq> user_id u \<and> email v = email')")
              case True
              with v Inr sa sb show ?thesis by simp
            next
              case False
              with v Inr sa sb have "update_user_view lib t uid data cu db =
                (Json 200 [(''message'', ''User updated successfully'')],
                  persist_user db (commit_user t u
                       (u\<lparr>is_active := is_active', is_admin := is_admin', email := email'\<rparr>)))"
                by simp
              with em' show ?thesis by blast
            qed
          qed
        qed
      qed
    qed
  qed
qed

lemma lower_mixed: "lower ''Alice@Example.COM'' = ''alice@example.com''"
  by code_simp








section \<open>The lockout policy\<close>

text \<open>
  C4. For every user and every clock reading \<open>now\<close>: when a lock is set and
  \<open>now\<close> is before it, \<open>is_account_locked\<close> answers locked and leaves the user as it
  was; when a lock is set and \<open>now\<close> is at or after it, it answers unlocked, clears
  \<open>account_locked_until\<close> and resets \<open>failed_login_attempts\<close> to 0; when no lock is
  set, it answers unlocked and leaves the user as it was.
\<close>

theorem is_account_locked_spec:
  "(account_locked_until u = Some until \<and> now < until \<longrightarrow>
      is_account_locked now t_commit u = (True, u))
   \<and> (account_locked_until u = Some until \<and> until \<le> now \<longrightarrow>
        fst (is_account_locked now t_commit u) = False
        \<and> account_locked_until (snd (is_account_locked now t_commit u)) = None
        \<and> failed_login_attempts (snd (is_account_locked now t_commit u)) = 0)
   \<and> (account_locked_until u = None \<longrightarrow>
        is_account_locked now t_commit u = (False, u))"
  by (simp add: is_account_locked_locked is_account_locked_expired is_account_locked_unset
        commit_user_fields)

theorem is_account_locked_spec_witness:
  "(account_locked_until (alice\<lparr>account_locked_until := Some 500\<rparr>) = Some 500 \<and> (100::int) < 500
      \<and> is_account_locked 100 100 (alice\<lparr>account_locked_until := Some 500\<rparr>)
          = (True, alice\<lparr>account_locked_until := Some 500\<rparr>))
   \<and> (account_locked_until (alice\<lparr>account_locked_until := Some 500, failed_login_attempts := 5\<rparr>) = Some 500
        \<and> (500::int) \<le> 500
        \<and> fst (is_account_locked 500 501 (alice\<lparr>account_locked_until := Some 500, failed_login_attempts := 5\<rparr>)) = False
        \<and> account_locked_until (snd (is_account_locked 500 501
              (alice\<lparr>account_locked_until := Some 500, failed_login_attempts := 5\<rparr>))) = None
        \<and> failed_login_attempts (snd (is_account_locked 500 501
              (alice\<lparr>account_locked_until := Some 500, failed_login_attempts := 5\<rparr>))) = 0)
   \<and> (account_locked_until alice = None \<and> is_account_locked 100 100 alice = (False, alice))"
  using is_account_locked_spec [of "alice\<lparr>account_locked_until := Some 500\<rparr>" 500 100 100]
        is_account_locked_spec [of "alice\<lparr>account_locked_until := Some 500, failed_login_attempts := 5\<rparr>" 500 500 501]
        is_account_locked_spec [of alice 0 100 100]
  by (simp add: alice_def)


text \<open>
  C3, as the code has it. For a user with no failures and no lock, four calls of
  \<open>record_failed_login\<close> set no lock and the fifth sets \<open>account_locked_until\<close> to
  its clock reading plus 30 minutes, so that \<open>is_account_locked\<close> answers locked at
  every earlier time. A login attempt for a user whose lock is in force is refused by the
  lock check, before the password is looked at, and leaves the database as it was, so a
  sixth failed attempt does not move the lock.
\<close>

theorem lockout_after_five_failures:
  "(failed_login_attempts u = 0 \<and> account_locked_until u = None \<longrightarrow>
      account_locked_until
        (record_failed_login a4 b4 c4 (record_failed_login a3 b3 c3
          (record_failed_login a2 b2 c2 (record_failed_login a1 b1 c1 u)))) = None
      \<and> account_locked_until
        (record_failed_login a5 b5 c5 (record_failed_login a4 b4 c4 (record_failed_login a3 b3 c3
          (record_failed_login a2 b2 c2 (record_failed_login a1 b1 c1 u)))))
          = Some (b5 + timedelta_minutes 30)
      \<and> (now < b5 + timedelta_minutes 30 \<longrightarrow>
           fst (is_account_locked now t
             (record_failed_login a5 b5 c5 (record_failed_login a4 b4 c4 (record_failed_login a3 b3 c3
               (record_failed_login a2 b2 c2 (record_failed_login a1 b1 c1 u))))))))
   \<and> (validate_on_submit form
       \<and> find (\<lambda>u. username u = form_username form \<or> email u = lower (form_username form))
           (users db) = Some v
       \<and> account_locked_until v = Some until \<and> clk 0 < until
       \<and> distinct (map user_id (users db)) \<longrightarrow>
       login lib clk None form next_page db =
         ((Render ''auth/login.html''
            [(''Your account is temporarily locked due to multiple failed login attempts. Please try again later.'',
              ''warning'')], None), db))"
proof (intro conjI impI)
  assume f: "failed_login_attempts u = 0 \<and> account_locked_until u = None"
  then show "account_locked_until
        (record_failed_login a4 b4 c4 (record_failed_login a3 b3 c3
          (record_failed_login a2 b2 c2 (record_failed_login a1 b1 c1 u)))) = None"
    by (simp add: record_failed_login_lock record_failed_login_attempts)
  from f show five: "account_locked_until
        (record_failed_login a5 b5 c5 (record_failed_login a4 b4 c4 (record_failed_login a3 b3 c3
          (record_failed_login a2 b2 c2 (record_failed_login a1 b1 c1 u)))))
          = Some (b5 + timedelta_minutes 30)"
    by (simp add: record_failed_login_lock record_failed_login_attempts)
  assume "now < b5 + timedelta_minutes 30"
  with five show "fst (is_account_locked now t
             (record_failed_login a5 b5 c5 (record_failed_login a4 b4 c4 (record_failed_login a3 b3 c3
               (record_failed_login a2 b2 c2 (record_failed_login a1 b1 c1 u))))))"
    by (simp add: is_account_locked_locked)
next
  assume "validate_on_submit form
       \<and> find (\<lambda>u. username u = form_username form \<or> email u = lower (form_username form))
           (users db) = Some v
       \<and> account_locked_until v = Some until \<and> clk 0 < until
       \<and> distinct (map user_id (users db))"
  then show "login lib clk None form next_page db =
         ((Render ''auth/login.html''
            [(''Your account is temporarily locked due to multiple failed login attempts. Please try again later.'',
              ''warning'')], None), db)"
    by (simp add: login_locked)
qed

theorem lockout_after_five_failures_witness:
  "(failed_login_attempts alice = 0 \<and> account_locked_until alice = None
      \<and> account_locked_until
        (record_failed_login 40 41 42 (record_failed_login 30 31 32
          (record_failed_login 20 21 22 (record_failed_login 10 11 12 alice)))) = None
      \<and> account_locked_until
        (record_failed_login 50 51 52 (record_failed_login 40 41 42 (record_failed_login 30 31 32
          (record_failed_login 20 21 22 (record_failed_login 10 11 12 alice)))))
          = Some 1800000051
      \<and> (60 :: int) < 51 + timedelta_minutes 30
      \<and> fst (is_account_locked 60 61
             (record_failed_login 50 51 52 (record_failed_login 40 41 42 (record_failed_login 30 31 32
               (record_failed_login 20 21 22 (record_failed_login 10 11 12 alice)))))))
   \<and> (validate_on_submit wrong_password_form
       \<and> find (\<lambda>u. username u = form_username wrong_password_form
                   \<or> email u = lower (form_username wrong_password_form))
           (users locked_db) = Some alice_locked
       \<and> account_locked_until alice_locked = Some 1800000000 \<and> clock_at 60000000 0 < (1800000000 :: int)
       \<and> distinct (map user_id (users locked_db))
       \<and> login example_library (clock_at 60000000) None wrong_password_form None locked_db =
         ((Render ''auth/login.html''
            [(''Your account is temporarily locked due to multiple failed login attempts. Please try again later.'',
              ''warning'')], None), locked_db))"
  using lockout_after_five_failures [of alice 40 41 42 30 31 32 20 21 22 10 11 12 50 51 52 60 61
          wrong_password_form locked_db alice_locked 1800000000 "clock_at 60000000"
          example_library None]
  by (simp add: alice_def wrong_password_form_def locked_db_def alice_locked_eq admin_def
        lower_alice clock_at_def timedelta_minutes_def)

text \<open>
  C3, as it is stated, fails: \<open>record_failed_login\<close> sets the lock whenever the counter is
  at least 5, so a sixth call one minute later, while the lock is in force, moves
  \<open>account_locked_until\<close> from 30 minutes to 31 minutes.
\<close>

theorem sixth_failure_extends_lock:
  "failed_login_attempts alice = 0 \<and> account_locked_until alice = None
   \<and> account_locked_until alice_locked = Some 1800000000
   \<and> fst (is_account_locked 60000000 60000000 alice_locked)
   \<and> account_locked_until (record_failed_login 60000000 60000000 60000000 alice_locked)
       = Some 1860000000"
  by (simp add: alice_locked_eq alice_def record_failed_login_def commit_user_def Let_def
        timedelta_minutes_def is_account_locked_def)

section \<open>Failed logins\<close>

text \<open>
  C1, as the code has it. In a session login that resolves a user, with no lock in force at
  the lock check and a password that does not match, the response is the generic
  rejection, the user's row becomes the result of \<open>record_failed_login\<close> with
  \<open>last_failed_login\<close> set to the clock reading, and \<open>failed_login_attempts\<close> is one
  more than before when no lock was set, and 1 when an expired lock has just been cleared.
  In API-key issuance, a password that does not match for a user with no lock set is
  answered with the generic 401.
\<close>

theorem failed_login_recorded:
  "(validate_on_submit form
      \<and> find (\<lambda>u. username u = form_username form \<or> email u = lower (form_username form))
           (users db) = Some u
      \<and> \<not> check_password lib u (form_password form)
      \<and> account_locked_until u = None \<longrightarrow>
      login lib clk None form next_page db =
        ((Render ''auth/login.html'' [(''Invalid username/email or password.'', ''danger'')], None),
         persist_user db (record_failed_login (clk 4) (clk 5) (clk 6) u))
      \<and> get_user (persist_user db (record_failed_login (clk 4) (clk 5) (clk 6) u)) (user_id u)
          = Some (record_failed_login (clk 4) (clk 5) (clk 6) u)
      \<and> failed_login_attempts (record_failed_login (clk 4) (clk 5) (clk 6) u)
          = failed_login_attempts u + 1
      \<and> last_failed_login (record_failed_login (clk 4) (clk 5) (clk 6) u) = Some (clk 4))
   \<and> (validate_on_submit form
      \<and> find (\<lambda>u. username u = form_username form \<or> email u = lower (form_username form))
           (users db) = Some u
      \<and> \<not> check_password lib u (form_password form)
      \<and> account_locked_until u = Some until \<and> until \<le> clk 0 \<longrightarrow>
      login lib clk None form next_page db =
        ((Render ''auth/login.html'' [(''Invalid username/email or password.'', ''danger'')], None),
         persist_user db (record_failed_login (clk 4) (clk 5) (clk 6)
                            (snd (is_account_locked (clk 0) (clk 1) u))))
      \<and> get_user (persist_user db (record_failed_login (clk 4) (clk 5) (clk 6)
                            (snd (is_account_locked (clk 0) (clk 1) u)))) (user_id u)
          = Some (record_failed_login (clk 4) (clk 5) (clk 6)
                            (snd (is_account_locked (clk 0) (clk 1) u)))
      \<and> failed_login_attempts (record_failed_login (clk 4) (clk 5) (clk 6)
                            (snd (is_account_locked (clk 0) (clk 1) u))) = 1
      \<and> last_failed_login (record_failed_login (clk 4) (clk 5) (clk 6)
                            (snd (is_account_locked (clk 0) (clk 1) u))) = Some (clk 4))
   \<and> (map_of kvs ''username'' = Some (JStr name) \<and> map_of kvs ''password'' = Some (JStr password)
      \<and> find (\<lambda>u. username u = name \<or> email u = lower name) (users db) = Some u
      \<and> \<not> check_password lib u password
      \<and> account_locked_until u = None \<longrightarrow>
      fst (api_login lib clk token salt new_id (JObj kvs) db) =
        Json 401 [(''error'', ''Authentication failed''),
          (''message'', ''Invalid username or password'')])"
proof (intro conjI impI)
  assume h: "validate_on_submit form
      \<and> find (\<lambda>u. username u = form_username form \<or> email u = lower (form_username form))
           (users db) = Some u
      \<and> \<not> check_password lib u (form_password form)
      \<and> account_locked_until u = None"
  then have l: "is_account_locked (clk 0) (clk 1) u = (False, u)"
    by (simp add: is_account_locked_unset)
  have "login lib clk None form next_page db =
        ((Render ''auth/login.html'' [(''Invalid username/email or password.'', ''danger'')], None),
         persist_user (persist_user db u) (record_failed_login (clk 4) (clk 5) (clk 6) u))"
    using h l by (intro login_wrong_password) simp_all
  then show "login lib clk None form next_page db =
        ((Render ''auth/login.html'' [(''Invalid username/email or password.'', ''danger'')], None),
         persist_user db (record_failed_login (clk 4) (clk 5) (clk 6) u))"
    by (simp add: persist_user_twice record_failed_login_id)
  from h have "u \<in> set (users db)" by (auto dest: find_user_mem)
  then have "\<exists>y. find (\<lambda>v. user_id v = user_id u) (users db) = Some y \<and> user_id y = user_id u"
    by (intro find_exists) auto
  then obtain y where "get_user db (user_id (record_failed_login (clk 4) (clk 5) (clk 6) u)) = Some y"
    by (auto simp: get_user_def record_failed_login_id)
  then have "get_user (persist_user db (record_failed_login (clk 4) (clk 5) (clk 6) u))
          (user_id (record_failed_login (clk 4) (clk 5) (clk 6) u))
          = Some (record_failed_login (clk 4) (clk 5) (clk 6) u)"
    by (rule get_user_persist_same)
  then show "get_user (persist_user db (record_failed_login (clk 4) (clk 5) (clk 6) u)) (user_id u)
          = Some (record_failed_login (clk 4) (clk 5) (clk 6) u)"
    by (simp add: record_failed_login_id)
  show "failed_login_attempts (record_failed_login (clk 4) (clk 5) (clk 6) u)
          = failed_login_attempts u + 1"
    by (rule record_failed_login_attempts)
  show "last_failed_login (record_failed_login (clk 4) (clk 5) (clk 6) u) = Some (clk 4)"
    by (rule record_failed_login_last)
next
  assume h: "validate_on_submit form
      \<and> find (\<lambda>u. username u = form_username form \<or> email u = lower (form_username form))
           (users db) = Some u
      \<and> \<not> check_password lib u (form_password form)
      \<and> account_locked_until u = Some until \<and> until \<le> clk 0"
  define u1 where "u1 = snd (is_account_locked (clk 0) (clk 1) u)"
  from h have l: "is_account_locked (clk 0) (clk 1) u = (False, u1)"
    by (simp add: u1_def is_account_locked_expired)
  have u1: "user_id u1 = user_id u" "password_hash u1 = password_hash u"
    "failed_login_attempts u1 = 0"
    using h by (simp_all add: u1_def is_account_locked_expired commit_user_fields)
  have "\<not> check_password lib u1 (form_password form)"
    using h u1 by (simp add: check_password_def)
  with h l have "login lib clk None form next_page db =
        ((Render ''auth/login.html'' [(''Invalid username/email or password.'', ''danger'')], None),
         persist_user (persist_user db u1) (record_failed_login (clk 4) (clk 5) (clk 6) u1))"
    by (intro login_wrong_password) simp_all
  then show "login lib clk None form next_page db =
        ((Render ''auth/login.html'' [(''Invalid username/email or password.'', ''danger'')], None),
         persist_user db (record_failed_login (clk 4) (clk 5) (clk 6)
                            (snd (is_account_locked (clk 0) (clk 1) u))))"
    unfolding u1_def [symmetric] by (simp add: persist_user_twice record_failed_login_id)
  from h have "u \<in> set (users db)" by (auto dest: find_user_mem)
  then have "\<exists>y. find (\<lambda>v. user_id v = user_id u) (users db) = Some y \<and> user_id y = user_id u"
    by (intro find_exists) auto
  then obtain y where "get_user db (user_id (record_failed_login (clk 4) (clk 5) (clk 6) u1)) = Some y"
    by (auto simp: get_user_def record_failed_login_id u1)
  then have "get_user (persist_user db (record_failed_login (clk 4) (clk 5) (clk 6) u1))
          (user_id (record_failed_login (clk 4) (clk 5) (clk 6) u1))
          = Some (record_failed_login (clk 4) (clk 5) (clk 6) u1)"
    by (rule get_user_persist_same)
  then have g: "get_user (persist_user db (record_failed_login (clk 4) (clk 5) (clk 6) u1))
          (user_id u) = Some (record_failed_login (clk 4) (clk 5) (clk 6) u1)"
    by (simp add: record_failed_login_id u1)
  show "get_user (persist_user db (record_failed_login (clk 4) (clk 5) (clk 6)
                            (snd (is_account_locked (clk 0) (clk 1) u)))) (user_id u)
          = Some (record_failed_login (clk 4) (clk 5) (clk 6)
                            (snd (is_account_locked (clk 0) (clk 1) u)))"
    unfolding u1_def [symmetric] by (rule g)
  show "failed_login_attempts (record_failed_login (clk 4) (clk 5) (clk 6)
                            (snd (is_account_locked (clk 0) (clk 1) u))) = 1"
    unfolding u1_def [symmetric] using u1 by (simp add: record_failed_login_attempts)
  show "last_failed_login (record_failed_login (clk 4) (clk 5) (clk 6)
                            (snd (is_account_locked (clk 0) (clk 1) u))) = Some (clk 4)"
    by (rule record_failed_login_last)
next
  assume "map_of kvs ''username'' = Some (JStr name) \<and> map_of kvs ''password'' = Some (JStr password)
      \<and> find (\<lambda>u. username u = name \<or> email u = lower name) (users db) = Some u
      \<and> \<not> check_password lib u password
      \<and> account_locked_until u = None"
  then show "fst (api_login lib clk token salt new_id (JObj kvs) db) =
        Json 401 [(''error'', ''Authentication failed''),
          (''message'', ''Invalid username or password'')]"
    by (simp add: api_login_wrong_password)
qed

theorem failed_login_recorded_witness:
  "(validate_on_submit wrong_password_form
      \<and> find (\<lambda>u. username u = form_username wrong_password_form
                  \<or> email u = lower (form_username wrong_password_form)) (users example_db)
          = Some alice
      \<and> \<not> check_password example_library alice (form_password wrong_password_form)
      \<and> account_locked_until alice = None
      \<and> fst (login example_library (clock_at 5000) None wrong_password_form None example_db) =
          (Render ''auth/login.html'' [(''Invalid username/email or password.'', ''danger'')], None)
      \<and> get_user (snd (login example_library (clock_at 5000) None wrong_password_form None example_db))
            (user_id alice)
          = Some (alice\<lparr>failed_login_attempts := 1, last_failed_login := Some 5000,
                         updated_at := Some 5000\<rparr>))
   \<and> (find (\<lambda>u. username u = form_username wrong_password_form
                  \<or> email u = lower (form_username wrong_password_form)) (users locked_db)
          = Some alice_locked
      \<and> \<not> check_password example_library alice_locked (form_password wrong_password_form)
      \<and> account_locked_until alice_locked = Some 1800000000
      \<and> (1800000000 :: int) \<le> clock_at 1900000000 0
      \<and> fst (login example_library (clock_at 1900000000) None wrong_password_form None locked_db) =
          (Render ''auth/login.html'' [(''Invalid username/email or password.'', ''danger'')], None)
      \<and> get_user (snd (login example_library (clock_at 1900000000) None wrong_password_form None
                          locked_db)) (user_id alice_locked)
          = Some (alice\<lparr>failed_login_attempts := 1, last_failed_login := Some 1900000000,
                         updated_at := Some 1900000000\<rparr>))
   \<and> (map_of [(''username'', JStr ''alice''), (''password'', JStr ''wrong'')] ''username''
          = Some (JStr ''alice'')
      \<and> map_of [(''username'', JStr ''alice''), (''password'', JStr ''wrong'')] ''password''
          = Some (JStr ''wrong'')
      \<and> find (\<lambda>u. username u = ''alice'' \<or> email u = lower ''alice'') (users example_db) = Some alice
      \<and> \<not> check_password example_library alice ''wrong''
      \<and> fst (api_login example_library (clock_at 5000) ''token'' ''salt'' 10
                (JObj [(''username'', JStr ''alice''), (''password'', JStr ''wrong'')]) example_db) =
          Json 401 [(''error'', ''Authentication failed''),
            (''message'', ''Invalid username or password'')])"
  using failed_login_recorded [of wrong_password_form example_db alice example_library
          "clock_at 5000" None 0 "[(''username'', JStr ''alice''), (''password'', JStr ''wrong'')]"
          "''alice''" "''wrong''" "''token''" "''salt''" 10]
        failed_login_recorded [of wrong_password_form locked_db alice_locked example_library
          "clock_at 1900000000" None 1800000000 "[(''username'', JStr ''alice''), (''password'', JStr ''wrong'')]"
          "''alice''" "''wrong''" "''token''" "''salt''" 10]
  by (simp add: wrong_password_form_def ex_defs locked_db_def alice_locked_eq lower_alice
        check_password_def record_failed_login_def commit_user_def Let_def is_account_locked_def
        get_user_def persist_user_def)

text \<open>
  C1, as it is stated, fails: a session login with a wrong password for a user whose lock
  is in force is answered with the lock message, and nothing is recorded.
\<close>

theorem locked_login_records_nothing:
  "\<not> check_password example_library alice_locked (form_password wrong_password_form)
   \<and> login example_library (clock_at 60000000) None wrong_password_form None locked_db =
       ((Render ''auth/login.html''
          [(''Your account is temporarily locked due to multiple failed login attempts. Please try again later.'',
            ''warning'')], None), locked_db)"
  by (simp add: login_def locked_db_def wrong_password_form_def alice_locked_eq alice_def
        admin_def lower_alice is_account_locked_def clock_at_def persist_user_def
        check_password_def example_library_def)

text \<open>
  C2. \<open>api_login\<close> verifies the password before it checks the lock: for a user whose
  lock is in force, a wrong password is answered with 401 and the right one with 403.
\<close>

theorem api_login_checks_password_before_lock:
  "fst (is_account_locked 60000000 60000000 alice_locked)
   \<and> api_login example_library (clock_at 60000000) ''token'' ''salt'' 10
       (JObj [(''username'', JStr ''alice''), (''password'', JStr ''wrong'')]) locked_db =
       (Json 401 [(''error'', ''Authentication failed''),
          (''message'', ''Invalid username or password'')], locked_db)
   \<and> api_login example_library (clock_at 60000000) ''token'' ''salt'' 10
       (JObj [(''username'', JStr ''alice''), (''password'', JStr ''Str0ng!Pass'')]) locked_db =
       (Json 403 [(''error'', ''Account locked''),
          (''message'', ''Your account is temporarily locked'')], locked_db)"
  by (simp add: api_login_def locked_db_def alice_locked_eq alice_def
        admin_def lower_alice is_account_locked_def clock_at_def persist_user_def
        check_password_def example_library_def truthy_def py_contains_def py_getitem_def)

section \<open>API keys\<close>



text \<open>
  C6. A key whose expiry is set and lies before the clock reading fails \<open>verify_key\<close>
  for every presented value, whatever its active flag and its hash. At the guarded
  endpoint: when every stored key that accepts the presented value has an expiry before
  every clock reading of the scan, the request is refused with 401 and nothing is written.
\<close>

theorem expired_key_fails:
  "(key_expires_at k = Some e \<and> e < now \<longrightarrow> \<not> verify_key lib now k raw)
   \<and> (raw \<noteq> [] \<and>
       (\<forall>k \<in> set (api_keys db). check_password_hash lib (key_hash k) raw \<longrightarrow>
            (\<exists>e. key_expires_at k = Some e \<and> (\<forall>n. e < clk n)))
       \<longrightarrow> api_key_required lib clk t_usage (Some raw) db =
             (Inl (Json 401 [(''error'', ''Invalid API key''),
                (''message'', ''The provided API key is invalid or has expired'')]), db))"
proof -
  have a: "key_expires_at k = Some e \<and> e < now \<longrightarrow> \<not> verify_key lib now k raw"
    by (simp add: verify_key_def)
  have b: "api_key_required lib clk t_usage (Some raw) db =
             (Inl (Json 401 [(''error'', ''Invalid API key''),
                (''message'', ''The provided API key is invalid or has expired'')]), db)"
    if ne: "raw \<noteq> []"
    and ex: "\<forall>k \<in> set (api_keys db). check_password_hash lib (key_hash k) raw \<longrightarrow>
            (\<exists>e. key_expires_at k = Some e \<and> (\<forall>n. e < clk n))"
  proof -
    have "\<forall>k \<in> set (filter key_is_active (api_keys db)). \<forall>n. \<not> verify_key lib (clk n) k raw"
    proof (intro ballI allI)
      fix k n assume "k \<in> set (filter key_is_active (api_keys db))"
      then have k: "k \<in> set (api_keys db)" by simp
      show "\<not> verify_key lib (clk n) k raw"
      proof (cases "check_password_hash lib (key_hash k) raw")
        case True
        with ex k obtain e where "key_expires_at k = Some e" "e < clk n" by blast
        then show ?thesis by (simp add: verify_key_def)
      next
        case False
        then show ?thesis by (simp add: verify_key_def)
      qed
    qed
    then have "scan_keys lib clk (filter key_is_active (api_keys db)) raw = None"
      by (rule scan_keys_none)
    with ne show ?thesis by (simp add: api_key_required_def)
  qed
  from a b show ?thesis by blast
qed

theorem expired_key_fails_witness:
  "(key_expires_at expired_key = Some 2000 \<and> (2000::int) < 5000 \<and> key_is_active expired_key
      \<and> check_password_hash example_library (key_hash expired_key) ''secret-key''
      \<and> \<not> verify_key example_library 5000 expired_key ''secret-key'')
   \<and> api_key_required example_library (clock_at 5000) 5000 (Some ''secret-key'')
         \<lparr>users = [admin, alice], api_keys = [expired_key]\<rparr> =
             (Inl (Json 401 [(''error'', ''Invalid API key''),
                (''message'', ''The provided API key is invalid or has expired'')]),
              \<lparr>users = [admin, alice], api_keys = [expired_key]\<rparr>)"
  using expired_key_fails [of expired_key 2000 5000 example_library "''secret-key''"
          "\<lparr>users = [admin, alice], api_keys = [expired_key]\<rparr>" "clock_at 5000" 5000]
  by (simp add: expired_key_def example_library_def clock_at_def)


text \<open>
  C7. At \<open>GET /api/auth/me\<close>: when the header is missing or empty, or no active stored
  key verifies the presented value, the response is a 401; when the scan finds a key and
  the user it belongs to is inactive, the response is a 403; and the guard never lets a
  request through as an inactive user.
\<close>

theorem api_key_guard:
  "((header = None \<or> header = Some []
      \<or> (\<exists>raw. header = Some raw \<and>
            (\<forall>k \<in> set (api_keys db). key_is_active k \<longrightarrow> (\<forall>n. \<not> verify_key lib (clk n) k raw))))
     \<longrightarrow> status (fst (get_current_user lib clk t_usage header db)) = 401)
   \<and> (header = Some raw \<and> raw \<noteq> []
        \<and> scan_keys lib clk (filter key_is_active (api_keys db)) raw = Some k
        \<and> get_user db (owner_id k) = Some u \<and> \<not> is_active u
     \<longrightarrow> status (fst (get_current_user lib clk t_usage header db)) = 403)
   \<and> (fst (api_key_required lib clk t_usage header db) = Inr u' \<longrightarrow> is_active u')"
proof (intro conjI impI)
  assume h: "header = None \<or> header = Some []
      \<or> (\<exists>raw. header = Some raw \<and>
            (\<forall>k \<in> set (api_keys db). key_is_active k \<longrightarrow> (\<forall>n. \<not> verify_key lib (clk n) k raw)))"
  show "status (fst (get_current_user lib clk t_usage header db)) = 401"
  proof (cases header)
    case None
    then show ?thesis by (simp add: get_current_user_def api_key_required_def)
  next
    case (Some raw)
    show ?thesis
    proof (cases "raw = []")
      case True
      with Some show ?thesis by (simp add: get_current_user_def api_key_required_def)
    next
      case False
      with h Some have "\<forall>k \<in> set (filter key_is_active (api_keys db)). \<forall>n. \<not> verify_key lib (clk n) k raw"
        by simp
      then have "scan_keys lib clk (filter key_is_active (api_keys db)) raw = None"
        by (rule scan_keys_none)
      with Some False show ?thesis by (simp add: get_current_user_def api_key_required_def)
    qed
  qed
next
  assume "header = Some raw \<and> raw \<noteq> []
        \<and> scan_keys lib clk (filter key_is_active (api_keys db)) raw = Some k
        \<and> get_user db (owner_id k) = Some u \<and> \<not> is_active u"
  then show "status (fst (get_current_user lib clk t_usage header db)) = 403"
    by (simp add: get_current_user_def api_key_required_def get_user_persist_key)
next
  assume "fst (api_key_required lib clk t_usage header db) = Inr u'"
  then show "is_active u'"
    by (auto simp: api_key_required_def Let_def split: option.splits if_splits)
qed


theorem api_key_guard_witness:
  "(\<not> verify_key example_library (clock_at 5000 0) expired_key ''wrong-key''
     \<and> \<not> verify_key example_library (clock_at 5000 1) alice_key ''wrong-key''
     \<and> \<not> verify_key example_library (clock_at 5000 2) bob_key ''wrong-key''
     \<and> status (fst (get_current_user example_library (clock_at 5000) 5000 (Some ''wrong-key'') example_db)) = 401)
   \<and> (scan_keys example_library (clock_at 5000) (filter key_is_active (api_keys example_db)) ''bob-key''
          = Some bob_key
        \<and> get_user example_db (owner_id bob_key) = Some bob \<and> \<not> is_active bob
        \<and> status (fst (get_current_user example_library (clock_at 5000) 5000 (Some ''bob-key'') example_db)) = 403)
   \<and> (fst (api_key_required example_library (clock_at 5000) 5000 (Some ''alice-key'') example_db) = Inr alice
        \<and> is_active alice)"
  using api_key_guard [of "Some ''wrong-key''" example_db example_library "clock_at 5000"
          5000 "''wrong-key''" bob_key bob alice]
        api_key_guard [of "Some ''bob-key''" example_db example_library "clock_at 5000"
          5000 "''bob-key''" bob_key bob alice]
        api_key_guard [of "Some ''alice-key''" example_db example_library "clock_at 5000"
          5000 "''alice-key''" bob_key bob alice]
  by (simp add: ex_defs verify_key_def get_user_def api_key_required_def persist_key_def
        record_usage_def)

text \<open>
  C8. For an authenticated caller, \<open>DELETE /api/keys/<key_id>\<close> succeeds exactly when
  a key with that id owned by the caller exists, and then deletes the rows with that id;
  otherwise it answers 404 and leaves the database as it was.
\<close>

theorem revoke_api_key_owner_only:
  "((\<exists>k \<in> set (api_keys db). key_id k = kid \<and> owner_id k = user_id cu) \<longrightarrow>
      revoke_api_key kid (Some cu) db =
        (Json 200 [(''message'', ''API key revoked successfully'')],
         db\<lparr>api_keys := filter (\<lambda>k. key_id k \<noteq> kid) (api_keys db)\<rparr>))
   \<and> (\<not> (\<exists>k \<in> set (api_keys db). key_id k = kid \<and> owner_id k = user_id cu) \<longrightarrow>
      revoke_api_key kid (Some cu) db =
        (Json 404 [(''error'', ''Not found''), (''message'', ''API key not found'')], db))"
proof (intro conjI impI)
  assume "\<exists>k \<in> set (api_keys db). key_id k = kid \<and> owner_id k = user_id cu"
  then have "\<exists>k. find (\<lambda>k. key_id k = kid \<and> owner_id k = user_id cu) (api_keys db) = Some k
              \<and> (key_id k = kid \<and> owner_id k = user_id cu)"
    by (rule find_exists)
  then obtain k where "find (\<lambda>k. key_id k = kid \<and> owner_id k = user_id cu) (api_keys db) = Some k"
    and "key_id k = kid" by blast
  then have "find (\<lambda>k. key_id k = kid \<and> owner_id k = user_id cu) (api_keys db) = Some k \<and> key_id k = kid"
    by simp
  moreover note refl
  ultimately show "revoke_api_key kid (Some cu) db =
        (Json 200 [(''message'', ''API key revoked successfully'')],
         db\<lparr>api_keys := filter (\<lambda>k. key_id k \<noteq> kid) (api_keys db)\<rparr>)"
    by (simp add: revoke_api_key_def login_required_def revoke_api_key_view_def)
next
  assume "\<not> (\<exists>k \<in> set (api_keys db). key_id k = kid \<and> owner_id k = user_id cu)"
  then have "find (\<lambda>k. key_id k = kid \<and> owner_id k = user_id cu) (api_keys db) = None"
    by (rule find_none)
  then show "revoke_api_key kid (Some cu) db =
        (Json 404 [(''error'', ''Not found''), (''message'', ''API key not found'')], db)"
    by (simp add: revoke_api_key_def login_required_def revoke_api_key_view_def)
qed


theorem revoke_api_key_owner_only_witness:
  "((\<exists>k \<in> set (api_keys example_db). key_id k = 8 \<and> owner_id k = user_id alice)
     \<and> revoke_api_key 8 (Some alice) example_db =
        (Json 200 [(''message'', ''API key revoked successfully'')],
         example_db\<lparr>api_keys := [expired_key, bob_key]\<rparr>))
   \<and> (\<not> (\<exists>k \<in> set (api_keys example_db). key_id k = 9 \<and> owner_id k = user_id alice)
     \<and> revoke_api_key 9 (Some alice) example_db =
        (Json 404 [(''error'', ''Not found''), (''message'', ''API key not found'')], example_db))"
  using revoke_api_key_owner_only [of example_db 8 alice]
        revoke_api_key_owner_only [of example_db 9 alice]
  by (simp add: ex_defs)

section \<open>User administration\<close>

text \<open>
  C9. An administrator who asks to delete the user with their own id is refused with a
  400, and the database is left as it was.
\<close>

theorem delete_user_self_guard:
  "is_admin cu \<Longrightarrow>
   delete_user (user_id cu) (Some cu) db =
     (Json 400 [(''error'', ''Invalid operation''),
        (''message'', ''You cannot delete your own account'')], db)"
  by (simp add: delete_user_def login_required_def admin_required_def delete_user_view_def)


theorem delete_user_self_guard_witness:
  "is_admin admin \<and>
   delete_user (user_id admin) (Some admin) example_db =
     (Json 400 [(''error'', ''Invalid operation''),
        (''message'', ''You cannot delete your own account'')], example_db)"
  using delete_user_self_guard [of admin example_db]
  by (simp add: admin_def)

text \<open>
  C10, as the code has it. For an administrator's \<open>PUT /api/users/<user_id>\<close> on an
  existing user, the row with that id afterwards agrees with the row before in \<open>id\<close>,
  \<open>username\<close>, \<open>password_hash\<close>, \<open>failed_login_attempts\<close>,
  \<open>last_failed_login\<close>, \<open>account_locked_until\<close>, \<open>created_at\<close> and
  \<open>last_login\<close>; its \<open>email\<close> is the old one or the lowercased string of the body;
  its \<open>updated_at\<close> is the old one when \<open>is_active\<close>, \<open>is_admin\<close> and
  \<open>email\<close> are all as before, and the clock reading of the commit when one of them
  changed; every other user and every API key is as before.
\<close>

theorem update_user_frame:
  "is_admin cu \<and> get_user db uid = Some u \<longrightarrow>
     (\<exists>u'. get_user (snd (update_user lib t uid data (Some cu) db)) uid = Some u'
        \<and> user_id u' = user_id u \<and> username u' = username u
        \<and> password_hash u' = password_hash u
        \<and> failed_login_attempts u' = failed_login_attempts u
        \<and> last_failed_login u' = last_failed_login u
        \<and> account_locked_until u' = account_locked_until u
        \<and> created_at u' = created_at u \<and> last_login u' = last_login u
        \<and> (email u' = email u \<or> (\<exists>s. py_getitem data ''email'' = Inr (JStr s) \<and> email u' = lower s))
        \<and> (updated_at u' = updated_at u \<or> updated_at u' = Some t)
        \<and> updated_at u' =
            (if is_active u' = is_active u \<and> is_admin u' = is_admin u \<and> email u' = email u
             then updated_at u else Some t))
     \<and> (\<forall>j. j \<noteq> uid \<longrightarrow> get_user (snd (update_user lib t uid data (Some cu) db)) j = get_user db j)
     \<and> api_keys (snd (update_user lib t uid data (Some cu) db)) = api_keys db"
proof
  assume h: "is_admin cu \<and> get_user db uid = Some u"
  then have g: "get_user db uid = Some u" by simp
  then have id: "user_id u = uid" by (auto simp: get_user_def dest: find_user_mem)
  have v: "update_user lib t uid data (Some cu) db = update_user_view lib t uid data (Some cu) db"
    using h by (simp add: update_user_def login_required_def admin_required_def)
  from update_user_view_cases [OF g, of lib t data "Some cu"]
  show "(\<exists>u'. get_user (snd (update_user lib t uid data (Some cu) db)) uid = Some u'
        \<and> user_id u' = user_id u \<and> username u' = username u
        \<and> password_hash u' = password_hash u
        \<and> failed_login_attempts u' = failed_login_attempts u
        \<and> last_failed_login u' = last_failed_login u
        \<and> account_locked_until u' = account_locked_until u
        \<and> created_at u' = created_at u \<and> last_login u' = last_login u
        \<and> (email u' = email u \<or> (\<exists>s. py_getitem data ''email'' = Inr (JStr s) \<and> email u' = lower s))
        \<and> (updated_at u' = updated_at u \<or> updated_at u' = Some t)
        \<and> updated_at u' =
            (if is_active u' = is_active u \<and> is_admin u' = is_admin u \<and> email u' = email u
             then updated_at u else Some t))
     \<and> (\<forall>j. j \<noteq> uid \<longrightarrow> get_user (snd (update_user lib t uid data (Some cu) db)) j = get_user db j)
     \<and> api_keys (snd (update_user lib t uid data (Some cu) db)) = api_keys db"
  proof
    assume "update_user_view lib t uid data (Some cu) db = (internal_error, db)"
    with v g show ?thesis by simp
  next
    assume "\<exists>a b e. update_user_view lib t uid data (Some cu) db =
             (Json 200 [(''message'', ''User updated successfully'')],
              persist_user db (commit_user t u (u\<lparr>is_active := a, is_admin := b, email := e\<rparr>)))
            \<and> (e = email u \<or> (\<exists>s. py_getitem data ''email'' = Inr (JStr s) \<and> e = lower s))"
    then obtain a b e where r: "update_user_view lib t uid data (Some cu) db =
             (Json 200 [(''message'', ''User updated successfully'')],
              persist_user db (commit_user t u (u\<lparr>is_active := a, is_admin := b, email := e\<rparr>)))"
      and e: "e = email u \<or> (\<exists>s. py_getitem data ''email'' = Inr (JStr s) \<and> e = lower s)"
      by blast
    define u' where "u' = commit_user t u (u\<lparr>is_active := a, is_admin := b, email := e\<rparr>)"
    have s: "snd (update_user lib t uid data (Some cu) db) = persist_user db u'"
      using v r by (simp add: u'_def)
    have id': "user_id u' = uid" using id by (simp add: u'_def commit_user_fields)
    have "get_user db (user_id u') = Some u" using g id' by simp
    then have "get_user (persist_user db u') (user_id u') = Some u'"
      by (rule get_user_persist_same)
    then have 1: "get_user (persist_user db u') uid = Some u'" using id' by simp
    have 2: "user_id u' = user_id u \<and> username u' = username u
        \<and> password_hash u' = password_hash u
        \<and> failed_login_attempts u' = failed_login_attempts u
        \<and> last_failed_login u' = last_failed_login u
        \<and> account_locked_until u' = account_locked_until u
        \<and> created_at u' = created_at u \<and> last_login u' = last_login u"
      by (simp add: u'_def commit_user_fields)
    have 3: "email u' = email u \<or> (\<exists>s. py_getitem data ''email'' = Inr (JStr s) \<and> email u' = lower s)"
      using e by (simp add: u'_def commit_user_fields)
    have 4: "updated_at u' = updated_at u \<or> updated_at u' = Some t"
      by (simp add: u'_def commit_user_def)
    have same: "(u\<lparr>is_active := a, is_admin := b, email := e\<rparr> = u)
                  = (a = is_active u \<and> b = is_admin u \<and> e = email u)"
    proof
      assume eq: "u\<lparr>is_active := a, is_admin := b, email := e\<rparr> = u"
      have "is_active (u\<lparr>is_active := a, is_admin := b, email := e\<rparr>) = a"
        "is_admin (u\<lparr>is_active := a, is_admin := b, email := e\<rparr>) = b"
        "email (u\<lparr>is_active := a, is_admin := b, email := e\<rparr>) = e"
        by simp_all
      then show "a = is_active u \<and> b = is_admin u \<and> e = email u"
        unfolding eq by simp
    next
      assume "a = is_active u \<and> b = is_admin u \<and> e = email u"
      then show "u\<lparr>is_active := a, is_admin := b, email := e\<rparr> = u" by simp
    qed
    have 7: "updated_at u' =
            (if is_active u' = is_active u \<and> is_admin u' = is_admin u \<and> email u' = email u
             then updated_at u else Some t)"
    proof (cases "u\<lparr>is_active := a, is_admin := b, email := e\<rparr> = u")
      case True
      then have "u' = u" by (simp add: u'_def commit_user_def)
      then show ?thesis by simp
    next
      case False
      then have "\<not> (a = is_active u \<and> b = is_admin u \<and> e = email u)"
        unfolding same by simp
      moreover have "is_active u' = a" "is_admin u' = b" "email u' = e"
        by (simp_all add: u'_def commit_user_fields)
      moreover have "updated_at u' = Some t" using False by (simp add: u'_def commit_user_def)
      ultimately show ?thesis by auto
    qed
    have 5: "\<forall>j. j \<noteq> uid \<longrightarrow> get_user (persist_user db u') j = get_user db j"
      using id' by (simp add: get_user_persist_other)
    have 6: "api_keys (persist_user db u') = api_keys db" by (simp add: persist_user_def)
    from 1 2 3 4 5 6 7 show ?thesis unfolding s by blast
  qed
qed

theorem update_user_frame_witness:
  "is_admin admin \<and> get_user example_db 2 = Some alice
   \<and> get_user (snd (update_user example_library 9000 2
         (JObj [(''is_active'', JBool False), (''email'', JStr ''Alice@Example.COM'')])
         (Some admin) example_db)) 2
       = Some (alice\<lparr>is_active := False, updated_at := Some 9000\<rparr>)
   \<and> get_user (snd (update_user example_library 9000 2
         (JObj [(''is_active'', JBool False), (''email'', JStr ''Alice@Example.COM'')])
         (Some admin) example_db)) 3 = Some bob
   \<and> api_keys (snd (update_user example_library 9000 2
         (JObj [(''is_active'', JBool False), (''email'', JStr ''Alice@Example.COM'')])
         (Some admin) example_db)) = [expired_key, alice_key, bob_key]
   \<and> get_user (snd (update_user example_library 9000 2 (JObj [(''is_active'', JBool True)])
         (Some admin) example_db)) 2 = Some alice"
  using update_user_frame [of admin example_db 2 alice example_library 9000
          "JObj [(''is_active'', JBool False), (''email'', JStr ''Alice@Example.COM'')]"]
        update_user_frame [of admin example_db 2 alice example_library 9000
          "JObj [(''is_active'', JBool True)]"]
  by (simp add: ex_defs get_user_def update_user_def login_required_def admin_required_def
        update_user_view_def lookup_if_present_def py_contains_def py_getitem_def
        lower_mixed commit_user_def persist_user_def)

text \<open>
  C10, as it is stated, fails: \<open>is_active\<close>, \<open>is_admin\<close> and \<open>email\<close> are not the
  only fields that can change. The commit of a changed row stamps \<open>updated_at\<close>
  (\<open>onupdate=datetime.utcnow\<close>).
\<close>

theorem update_user_changes_updated_at:
  "is_admin admin \<and> get_user example_db 2 = Some alice \<and> updated_at alice = Some 1000
   \<and> get_user (snd (update_user example_library 9000 2 (JObj [(''is_active'', JBool False)])
         (Some admin) example_db)) 2
       = Some (alice\<lparr>is_active := False, updated_at := Some 9000\<rparr>)"
  by (simp add: ex_defs get_user_def update_user_def login_required_def admin_required_def
        update_user_view_def lookup_if_present_def py_contains_def py_getitem_def
        commit_user_def persist_user_def)

end
